theory Spec2Isabelle
  imports Complex_Main
begin

section \<open>Heuristic fraud scoring of a single card transaction\<close>

text \<open>
  The development embeds \<^verbatim>\<open>analyze_transaction\<close> of \<^verbatim>\<open>src/app.py\<close>: the statistics
  lookup (lines 79-108) and the risk scorer (lines 110-177).

  Numbers. Amounts, ratios, scores and the threshold are Python floats in the source; the
  specification types them as reals. The scorer is embedded twice. The first embedding
  computes on \<^typ>\<open>real\<close> with exact arithmetic; the properties that hold of the
  scorer whatever the rounding (equations between its own results, ranges, order,
  independence, totality) are stated on it. The second embedding computes on IEEE-754
  binary64 numbers, every operation rounded to nearest with ties to even; a statement
  that names a decimal value of the score is settled there. The transaction count is an
  \<^typ>\<open>int\<close> in both.

  Errors. Float division raises \<^verbatim>\<open>ZeroDivisionError\<close> on a zero divisor, and the
  boolean-mask selection on the statistics object may raise any exception; both are
  values of \<open>error\<close>, and a function that can raise returns \<open>error + 'a\<close>.
\<close>

subsection \<open>Data model\<close>

datatype error = ZeroDivisionError | SelectionError

text \<open>The dictionary \<^verbatim>\<open>customer_stats\<close> built at lines 92-98 and 102-108.\<close>

record customer_stats =
  transaction_count :: int
  avg_amount :: real
  max_amount :: real
  min_amount :: real
  total_amount :: real

text \<open>
  One row of the table \<^verbatim>\<open>customer_stats_overall\<close>: the five statistics columns and the
  key column \<^verbatim>\<open>customer_id\<close>.
\<close>

record stats_row = customer_stats +
  customer_id :: int

text \<open>
  The object stored under \<^verbatim>\<open>customer_stats_overall\<close>: a data frame, that is its rows in
  order, or some other object on which the selection of line 83 raises.
\<close>

datatype stats_source = DataFrame "stats_row list" | Unselectable

text \<open>
  \<^verbatim>\<open>model_data\<close>, read at lines 72-77 either as a dictionary or as an object; in both
  cases a missing threshold defaults to \<^verbatim>\<open>0.5\<close> and a missing table to \<^verbatim>\<open>None\<close>.
\<close>

record model_data =
  model_threshold :: "real option"
  customer_stats_overall :: "stats_source option"

text \<open>The dictionary returned at lines 169-177.\<close>

record risk_assessment =
  predicted_fraud :: bool
  fraud_score :: real
  threshold :: real
  customer_stats :: customer_stats
  fraud_indicators :: "string list"
  amount_to_avg_ratio :: "real option"
  amount_to_max_ratio :: "real option"

subsection \<open>Formatting a number with one decimal\<close>

text \<open>
  The format specification \<^verbatim>\<open>:.1f\<close> prints the value rounded to one decimal place, a
  tie going to the even neighbour, with a leading minus sign for a negative value.
\<close>

definition round_half_even :: "real \<Rightarrow> int" where
  "round_half_even x =
     (let f = \<lfloor>x\<rfloor>; d = x - of_int f
      in if d < 1 / 2 then f
         else if d > 1 / 2 then f + 1
         else if even f then f else f + 1)"

definition digit_char :: "nat \<Rightarrow> char" where
  "digit_char d = ''0123456789'' ! d"

fun digits :: "nat \<Rightarrow> string" where
  "digits n = (if n < 10 then [digit_char n] else digits (n div 10) @ [digit_char (n mod 10)])"

declare digits.simps [simp del]

definition format_1f :: "real \<Rightarrow> string" where
  "format_1f x =
     (let n = nat (round_half_even (\<bar>x\<bar> * 10))
      in (if x < 0 then ''-'' else []) @ digits (n div 10) @ ''.'' @ [digit_char (n mod 10)])"

definition avg_message :: "real \<Rightarrow> string" where
  "avg_message ratio = ''Amount is '' @ format_1f ratio @ ''x higher than customer's average''"

definition max_message :: "real \<Rightarrow> string" where
  "max_message ratio = ''Amount is '' @ format_1f ratio @ ''x higher than customer's maximum''"

subsection \<open>Statistics lookup (lines 79-108)\<close>

text \<open>
  Line 83: the rows whose \<^verbatim>\<open>customer_id\<close> equals the argument, in table order. On an
  object that is no data frame the selection raises.
\<close>

fun select_rows :: "stats_source \<Rightarrow> int \<Rightarrow> error + stats_row list" where
  "select_rows (DataFrame rows) cid = Inr (filter (\<lambda>r. customer_id r = cid) rows)"
| "select_rows Unselectable cid = Inl SelectionError"

text \<open>Lines 80-88: \<^verbatim>\<open>try\<close>/\<^verbatim>\<open>except\<close> turns every exception into \<^verbatim>\<open>None\<close>.\<close>

definition customer_history :: "stats_source option \<Rightarrow> int \<Rightarrow> stats_row list option" where
  "customer_history tbl cid =
     (case tbl of
        None \<Rightarrow> None
      | Some src \<Rightarrow> (case select_rows src cid of Inl e \<Rightarrow> None | Inr rows \<Rightarrow> Some rows))"

definition zero_record :: customer_stats where
  "zero_record =
     \<lparr>transaction_count = 0, avg_amount = 0, max_amount = 0, min_amount = 0, total_amount = 0\<rparr>"

text \<open>Lines 91-108: the zero record without history, else the first selected row.\<close>

definition lookup :: "stats_source option \<Rightarrow> int \<Rightarrow> customer_stats" where
  "lookup tbl cid =
     (case customer_history tbl cid of
        None \<Rightarrow> zero_record
      | Some [] \<Rightarrow> zero_record
      | Some (stats # rest) \<Rightarrow>
          \<lparr>transaction_count = transaction_count stats,
           avg_amount = avg_amount stats,
           max_amount = max_amount stats,
           min_amount = min_amount stats,
           total_amount = total_amount stats\<rparr>)"

subsection \<open>Risk scorer (lines 110-177)\<close>

text \<open>Python's \<^verbatim>\<open>/\<close> on numbers.\<close>

definition truediv :: "real \<Rightarrow> real \<Rightarrow> error + real" where
  "truediv x y = (if y = 0 then Inl ZeroDivisionError else Inr (x / y))"

text \<open>
  Lines 114-123. The state is the indicator list; the result is the ratio together with
  the extended list.
\<close>

definition avg_ratio_step :: "customer_stats \<Rightarrow> real \<Rightarrow> string list \<Rightarrow> error + real \<times> string list" where
  "avg_ratio_step cs amount inds =
     (if avg_amount cs > 0 then
        (case truediv amount (avg_amount cs) of
           Inl e \<Rightarrow> Inl e
         | Inr ratio \<Rightarrow>
             if ratio > 5.0 then Inr (ratio, inds @ [avg_message ratio])
             else if ratio > 3.0 then Inr (ratio, inds @ [avg_message ratio])
             else Inr (ratio, inds))
      else
        Inr (0, if amount > 1000 then inds @ [''High amount for a new customer''] else inds))"

text \<open>Lines 125-132.\<close>

definition max_ratio_step :: "customer_stats \<Rightarrow> real \<Rightarrow> string list \<Rightarrow> error + real \<times> string list" where
  "max_ratio_step cs amount inds =
     (if max_amount cs > 0 then
        (case truediv amount (max_amount cs) of
           Inl e \<Rightarrow> Inl e
         | Inr ratio \<Rightarrow>
             if ratio > 1.5 then Inr (ratio, inds @ [max_message ratio])
             else if ratio > 1.0 then Inr (ratio, inds @ [''Amount exceeds customer's maximum''])
             else Inr (ratio, inds))
      else
        Inr (0, inds))"

text \<open>Lines 134-156: the score accumulated from \<^verbatim>\<open>0.0\<close>, one update after the other.\<close>

definition basic_fraud_score :: "customer_stats \<Rightarrow> real \<Rightarrow> real \<Rightarrow> real \<Rightarrow> real" where
  "basic_fraud_score cs amount avg_ratio max_ratio =
     (let s0 = 0.0;
          s1 = (if transaction_count cs < 1 then s0 + 0.5 else s0);
          s2 = (if avg_ratio > 5.0 then s1 + 0.3
                else if avg_ratio > 3.0 then s1 + 0.2 else s1);
          s3 = (if max_ratio > 1.5 then s2 + 0.4
                else if max_ratio > 1.0 then s2 + 0.2 else s2);
          s4 = (if amount > 5000 then s3 + 0.3
                else if amount > 1000 then s3 + 0.1 else s3)
      in s4)"

text \<open>Lines 158-163: the cap, then the reduction for established customers.\<close>

definition adjust_score :: "customer_stats \<Rightarrow> real \<Rightarrow> real" where
  "adjust_score cs s =
     (let capped = min s 1.0
      in if transaction_count cs > 10 then capped * 0.8 else capped)"

text \<open>Lines 110-177 as a whole.\<close>

definition score :: "customer_stats \<Rightarrow> real \<Rightarrow> real \<Rightarrow> error + risk_assessment" where
  "score cs amount thr =
     (case avg_ratio_step cs amount [] of
        Inl e \<Rightarrow> Inl e
      | Inr (avg_ratio, inds1) \<Rightarrow>
          (case max_ratio_step cs amount inds1 of
             Inl e \<Rightarrow> Inl e
           | Inr (max_ratio, inds2) \<Rightarrow>
               (let s = adjust_score cs (basic_fraud_score cs amount avg_ratio max_ratio)
                in Inr \<lparr>predicted_fraud = s > thr,
                        fraud_score = s,
                        threshold = thr,
                        customer_stats = cs,
                        fraud_indicators = inds2,
                        amount_to_avg_ratio = (if avg_amount cs > 0 then Some avg_ratio else None),
                        amount_to_max_ratio = (if max_amount cs > 0 then Some max_ratio else None)\<rparr>)))"

text \<open>The whole function: configuration (lines 72-77), lookup, scorer.\<close>

definition analyze_transaction :: "int \<Rightarrow> real \<Rightarrow> model_data \<Rightarrow> error + risk_assessment" where
  "analyze_transaction cid amount md =
     (let thr = (case model_threshold md of None \<Rightarrow> 0.5 | Some t \<Rightarrow> t)
      in score (lookup (customer_stats_overall md) cid) amount thr)"

subsection \<open>The contributions as the specification lists them\<close>






subsection \<open>Auxiliary notions for the proofs\<close>

text \<open>The local variable holding a ratio: the quotient under the guard, else \<open>0\<close>.\<close>

definition ratio_or_zero :: "real \<Rightarrow> real \<Rightarrow> real" where
  "ratio_or_zero amount d = (if d > 0 then amount / d else 0)"

text \<open>The value of \<^verbatim>\<open>fraud_score\<close> at line 166.\<close>

definition final_score :: "customer_stats \<Rightarrow> real \<Rightarrow> real" where
  "final_score cs amount =
     adjust_score cs
       (basic_fraud_score cs amount (ratio_or_zero amount (avg_amount cs))
          (ratio_or_zero amount (max_amount cs)))"

text \<open>The statistics columns of a table row.\<close>

definition stats_of_row :: "stats_row \<Rightarrow> customer_stats" where
  "stats_of_row stats =
     \<lparr>transaction_count = transaction_count stats,
      avg_amount = avg_amount stats,
      max_amount = max_amount stats,
      min_amount = min_amount stats,
      total_amount = total_amount stats\<rparr>"

text \<open>Customers used in the examples.\<close>

definition scenario_B :: customer_stats where
  "scenario_B =
     \<lparr>transaction_count = 20, avg_amount = 100, max_amount = 200, min_amount = 10,
      total_amount = 2000\<rparr>"

definition row_a :: stats_row where
  "row_a =
     \<lparr>transaction_count = 3, avg_amount = 40, max_amount = 90, min_amount = 5,
      total_amount = 120, customer_id = 7\<rparr>"

definition row_b :: stats_row where
  "row_b =
     \<lparr>transaction_count = 9, avg_amount = 10, max_amount = 20, min_amount = 1,
      total_amount = 90, customer_id = 7\<rparr>"

definition row_c :: stats_row where
  "row_c =
     \<lparr>transaction_count = 1, avg_amount = 15, max_amount = 15, min_amount = 15,
      total_amount = 15, customer_id = 8\<rparr>"

subsection \<open>Binary64 numbers\<close>

text \<open>
  A Python float is a finite binary64 number, an infinity or a NaN. A finite number is
  carried as the real it denotes; the two zeros are identified, as \<^verbatim>\<open>==\<close> identifies
  them.
\<close>

datatype float64 = Finite real | PlusInf | MinusInf | NaN

text \<open>\<^verbatim>\<open>int.bit_length\<close>: the number of binary digits of a positive integer.\<close>

function bit_length :: "int \<Rightarrow> nat" where
  "bit_length n = (if n \<le> 0 then 0 else Suc (bit_length (n div 2)))"
  by pat_completeness auto
termination
  by (relation "measure nat") auto

declare bit_length.simps [simp del]

text \<open>The power of two with an integer exponent.\<close>

definition pow2 :: "int \<Rightarrow> real" where
  "pow2 e = (if 0 \<le> e then 2 ^ nat e else 1 / 2 ^ nat (- e))"

text \<open>
  The binary exponent of a non-zero real, that is the integer \<open>e\<close> with
  \<open>2^e \<le> |x| < 2^(e+1)\<close> (lemma \<open>exponent_of_bounds\<close> below).
\<close>

definition exponent_of :: "real \<Rightarrow> int" where
  "exponent_of x =
     (if 1 \<le> \<bar>x\<bar> then int (bit_length \<lfloor>\<bar>x\<bar>\<rfloor>) - 1
      else - int (bit_length (\<lceil>1 / \<bar>x\<bar>\<rceil> - 1)))"

text \<open>
  Rounding to binary64: 53 significant bits, so the spacing of representable numbers
  around \<open>x\<close> is \<open>2^(e-52)\<close>, with \<open>e\<close> not below \<open>-1022\<close> (subnormal
  numbers share the spacing \<open>2^(-1074)\<close>); the nearest multiple of the spacing is taken,
  a tie going to the even multiple; a result of magnitude \<open>2^1024\<close> or more is an
  infinity.
\<close>

definition round64 :: "real \<Rightarrow> float64" where
  "round64 x =
     (if x = 0 then Finite 0
      else
        (let q = pow2 (max (exponent_of x) (- 1022) - 52);
             y = of_int (round_half_even (x / q)) * q
         in if 1024 \<le> exponent_of y then (if 0 < y then PlusInf else MinusInf)
            else Finite y))"

text \<open>A decimal literal of the source denotes the binary64 number nearest to it.\<close>

definition float_literal :: "real \<Rightarrow> float64" where
  "float_literal d = round64 d"

text \<open>
  The operations the scorer uses: \<^verbatim>\<open>+\<close>, \<^verbatim>\<open>*\<close>, \<^verbatim>\<open>/\<close> (which raises on a zero
  divisor before anything else), \<^verbatim>\<open>>\<close> (false as soon as one side is a NaN) and the
  built-in \<^verbatim>\<open>min\<close> of two arguments, which returns the second only if it is smaller
  than the first.
\<close>

fun float_add :: "float64 \<Rightarrow> float64 \<Rightarrow> float64" where
  "float_add (Finite x) (Finite y) = round64 (x + y)"
| "float_add NaN b = NaN"
| "float_add a NaN = NaN"
| "float_add PlusInf MinusInf = NaN"
| "float_add MinusInf PlusInf = NaN"
| "float_add PlusInf b = PlusInf"
| "float_add MinusInf b = MinusInf"
| "float_add a PlusInf = PlusInf"
| "float_add a MinusInf = MinusInf"

fun float_mul :: "float64 \<Rightarrow> float64 \<Rightarrow> float64" where
  "float_mul (Finite x) (Finite y) = round64 (x * y)"
| "float_mul NaN b = NaN"
| "float_mul a NaN = NaN"
| "float_mul PlusInf (Finite y) = (if y = 0 then NaN else if 0 < y then PlusInf else MinusInf)"
| "float_mul MinusInf (Finite y) = (if y = 0 then NaN else if 0 < y then MinusInf else PlusInf)"
| "float_mul (Finite x) PlusInf = (if x = 0 then NaN else if 0 < x then PlusInf else MinusInf)"
| "float_mul (Finite x) MinusInf = (if x = 0 then NaN else if 0 < x then MinusInf else PlusInf)"
| "float_mul PlusInf PlusInf = PlusInf"
| "float_mul MinusInf MinusInf = PlusInf"
| "float_mul PlusInf MinusInf = MinusInf"
| "float_mul MinusInf PlusInf = MinusInf"

fun float_truediv :: "float64 \<Rightarrow> float64 \<Rightarrow> error + float64" where
  "float_truediv a (Finite y) =
     (if y = 0 then Inl ZeroDivisionError
      else (case a of
              Finite x \<Rightarrow> Inr (round64 (x / y))
            | PlusInf \<Rightarrow> Inr (if 0 < y then PlusInf else MinusInf)
            | MinusInf \<Rightarrow> Inr (if 0 < y then MinusInf else PlusInf)
            | NaN \<Rightarrow> Inr NaN))"
| "float_truediv a NaN = Inr NaN"
| "float_truediv (Finite x) b = Inr (Finite 0)"
| "float_truediv a b = Inr NaN"

fun float_gt :: "float64 \<Rightarrow> float64 \<Rightarrow> bool" where
  "float_gt (Finite x) (Finite y) = (x > y)"
| "float_gt NaN b = False"
| "float_gt a NaN = False"
| "float_gt a PlusInf = False"
| "float_gt MinusInf b = False"
| "float_gt PlusInf b = True"
| "float_gt a MinusInf = True"

definition float_min :: "float64 \<Rightarrow> float64 \<Rightarrow> float64" where
  "float_min a b = (if float_gt a b then b else a)"

text \<open>\<^verbatim>\<open>:.1f\<close> on a float: the stored value rounded to one decimal.\<close>

fun format_1f_float :: "float64 \<Rightarrow> string" where
  "format_1f_float (Finite x) = format_1f x"
| "format_1f_float PlusInf = ''inf''"
| "format_1f_float MinusInf = ''-inf''"
| "format_1f_float NaN = ''nan''"

subsection \<open>The risk scorer over binary64 (lines 110-177)\<close>

text \<open>
  The same statements as in \<open>score\<close>, in the same order, with the operations of the
  previous subsection. Records and functions carry the suffix \<open>64\<close>.
\<close>

record customer_stats64 =
  transaction_count64 :: int
  avg_amount64 :: float64
  max_amount64 :: float64
  min_amount64 :: float64
  total_amount64 :: float64

record risk_assessment64 =
  predicted_fraud64 :: bool
  fraud_score64 :: float64
  threshold64 :: float64
  customer_stats64 :: customer_stats64
  fraud_indicators64 :: "string list"
  amount_to_avg_ratio64 :: "float64 option"
  amount_to_max_ratio64 :: "float64 option"

definition avg_message64 :: "float64 \<Rightarrow> string" where
  "avg_message64 ratio =
     ''Amount is '' @ format_1f_float ratio @ ''x higher than customer's average''"

definition max_message64 :: "float64 \<Rightarrow> string" where
  "max_message64 ratio =
     ''Amount is '' @ format_1f_float ratio @ ''x higher than customer's maximum''"

definition avg_ratio_step64 ::
  "customer_stats64 \<Rightarrow> float64 \<Rightarrow> string list \<Rightarrow> error + float64 \<times> string list" where
  "avg_ratio_step64 cs amount inds =
     (if float_gt (avg_amount64 cs) (Finite 0) then
        (case float_truediv amount (avg_amount64 cs) of
           Inl e \<Rightarrow> Inl e
         | Inr ratio \<Rightarrow>
             if float_gt ratio (float_literal 5.0) then Inr (ratio, inds @ [avg_message64 ratio])
             else if float_gt ratio (float_literal 3.0) then
               Inr (ratio, inds @ [avg_message64 ratio])
             else Inr (ratio, inds))
      else
        Inr (Finite 0,
             if float_gt amount (Finite 1000) then inds @ [''High amount for a new customer'']
             else inds))"

definition max_ratio_step64 ::
  "customer_stats64 \<Rightarrow> float64 \<Rightarrow> string list \<Rightarrow> error + float64 \<times> string list" where
  "max_ratio_step64 cs amount inds =
     (if float_gt (max_amount64 cs) (Finite 0) then
        (case float_truediv amount (max_amount64 cs) of
           Inl e \<Rightarrow> Inl e
         | Inr ratio \<Rightarrow>
             if float_gt ratio (float_literal 1.5) then Inr (ratio, inds @ [max_message64 ratio])
             else if float_gt ratio (float_literal 1.0) then
               Inr (ratio, inds @ [''Amount exceeds customer's maximum''])
             else Inr (ratio, inds))
      else
        Inr (Finite 0, inds))"

definition basic_fraud_score64 ::
  "customer_stats64 \<Rightarrow> float64 \<Rightarrow> float64 \<Rightarrow> float64 \<Rightarrow> float64" where
  "basic_fraud_score64 cs amount avg_ratio max_ratio =
     (let s0 = float_literal 0.0;
          s1 = (if transaction_count64 cs < 1 then float_add s0 (float_literal 0.5) else s0);
          s2 = (if float_gt avg_ratio (float_literal 5.0) then float_add s1 (float_literal 0.3)
                else if float_gt avg_ratio (float_literal 3.0) then
                  float_add s1 (float_literal 0.2)
                else s1);
          s3 = (if float_gt max_ratio (float_literal 1.5) then float_add s2 (float_literal 0.4)
                else if float_gt max_ratio (float_literal 1.0) then
                  float_add s2 (float_literal 0.2)
                else s2);
          s4 = (if float_gt amount (Finite 5000) then float_add s3 (float_literal 0.3)
                else if float_gt amount (Finite 1000) then float_add s3 (float_literal 0.1)
                else s3)
      in s4)"

definition adjust_score64 :: "customer_stats64 \<Rightarrow> float64 \<Rightarrow> float64" where
  "adjust_score64 cs s =
     (let capped = float_min s (float_literal 1.0)
      in if transaction_count64 cs > 10 then float_mul capped (float_literal 0.8) else capped)"

definition score64 ::
  "customer_stats64 \<Rightarrow> float64 \<Rightarrow> float64 \<Rightarrow> error + risk_assessment64" where
  "score64 cs amount thr =
     (case avg_ratio_step64 cs amount [] of
        Inl e \<Rightarrow> Inl e
      | Inr (avg_ratio, inds1) \<Rightarrow>
          (case max_ratio_step64 cs amount inds1 of
             Inl e \<Rightarrow> Inl e
           | Inr (max_ratio, inds2) \<Rightarrow>
               (let s = adjust_score64 cs (basic_fraud_score64 cs amount avg_ratio max_ratio)
                in Inr \<lparr>predicted_fraud64 = float_gt s thr,
                        fraud_score64 = s,
                        threshold64 = thr,
                        customer_stats64 = cs,
                        fraud_indicators64 = inds2,
                        amount_to_avg_ratio64 =
                          (if float_gt (avg_amount64 cs) (Finite 0) then Some avg_ratio else None),
                        amount_to_max_ratio64 =
                          (if float_gt (max_amount64 cs) (Finite 0) then Some max_ratio
                           else None)\<rparr>)))"

definition scenario_B64 :: customer_stats64 where
  "scenario_B64 =
     \<lparr>transaction_count64 = 20, avg_amount64 = Finite 100, max_amount64 = Finite 200,
      min_amount64 = Finite 10, total_amount64 = Finite 2000\<rparr>"

section \<open>General facts about the scorer\<close>

lemma avg_ratio_step_returns:
  "\<exists>inds'. avg_ratio_step cs a inds = Inr (ratio_or_zero a (avg_amount cs), inds')"
  by (simp add: avg_ratio_step_def truediv_def ratio_or_zero_def)

lemma max_ratio_step_returns:
  "\<exists>inds'. max_ratio_step cs a inds = Inr (ratio_or_zero a (max_amount cs), inds')"
  by (simp add: max_ratio_step_def truediv_def ratio_or_zero_def)

lemma score_returns:
  "\<exists>inds. score cs a t =
     Inr \<lparr>predicted_fraud = final_score cs a > t,
          fraud_score = final_score cs a,
          threshold = t,
          customer_stats = cs,
          fraud_indicators = inds,
          amount_to_avg_ratio = (if avg_amount cs > 0 then Some (a / avg_amount cs) else None),
          amount_to_max_ratio = (if max_amount cs > 0 then Some (a / max_amount cs) else None)\<rparr>"
proof -
  obtain i1 where s1: "avg_ratio_step cs a [] = Inr (ratio_or_zero a (avg_amount cs), i1)"
    using avg_ratio_step_returns by blast
  obtain i2 where s2: "max_ratio_step cs a i1 = Inr (ratio_or_zero a (max_amount cs), i2)"
    using max_ratio_step_returns by blast
  show ?thesis
    by (simp add: score_def s1 s2 final_score_def Let_def ratio_or_zero_def)
qed






text \<open>Bounds and monotonicity of the two numeric stages.\<close>

lemma basic_fraud_score_nonneg: "0 \<le> basic_fraud_score cs a u v"
  by (simp add: basic_fraud_score_def Let_def)

lemma basic_fraud_score_mono:
  "a1 \<le> a2 \<Longrightarrow> u1 \<le> u2 \<Longrightarrow> v1 \<le> v2 \<Longrightarrow>
   basic_fraud_score cs a1 u1 v1 \<le> basic_fraud_score cs a2 u2 v2"
  by (simp add: basic_fraud_score_def Let_def)

lemma adjust_score_bounds: "0 \<le> s \<Longrightarrow> 0 \<le> adjust_score cs s \<and> adjust_score cs s \<le> 1"
  by (simp add: adjust_score_def Let_def min_def)

lemma adjust_score_mono: "s1 \<le> s2 \<Longrightarrow> adjust_score cs s1 \<le> adjust_score cs s2"
  by (simp add: adjust_score_def Let_def min_def)

lemma ratio_or_zero_mono: "a1 \<le> a2 \<Longrightarrow> ratio_or_zero a1 d \<le> ratio_or_zero a2 d"
  by (simp add: ratio_or_zero_def divide_right_mono)

lemma final_score_mono: "a1 \<le> a2 \<Longrightarrow> final_score cs a1 \<le> final_score cs a2"
  unfolding final_score_def
  by (intro adjust_score_mono basic_fraud_score_mono ratio_or_zero_mono)

section \<open>Binary64 rounding\<close>

text \<open>The exponent function computes the integer part of the binary logarithm.\<close>

lemma bit_length_pos: "0 < n \<Longrightarrow> 0 < bit_length n"
  by (subst bit_length.simps) simp

lemma bit_length_bounds:
  "0 < n \<Longrightarrow> 2 ^ (bit_length n - 1) \<le> n \<and> n < 2 ^ bit_length n"
proof (induction n rule: bit_length.induct)
  case (1 n)
  show ?case
  proof (cases "n div 2 = 0")
    case True
    with "1.prems" have "n = 1" by presburger
    then show ?thesis
      by (simp add: bit_length.simps [of 1] bit_length.simps [of 0])
  next
    case False
    with "1.prems" have pos: "0 < n div 2" by presburger
    from "1.prems" have "\<not> n \<le> 0" by simp
    from "1.IH" [OF this pos]
    have ih: "2 ^ (bit_length (n div 2) - 1) \<le> n div 2" "n div 2 < 2 ^ bit_length (n div 2)"
      by simp_all
    define k where "k = bit_length (n div 2)"
    have kpos: "0 < k" unfolding k_def using pos by (rule bit_length_pos)
    then obtain j where j: "k = Suc j" by (cases k) auto
    have bl: "bit_length n = Suc k"
      using "1.prems" by (subst bit_length.simps) (simp add: k_def)
    from ih have "2 ^ j \<le> n div 2" "n div 2 < 2 ^ k"
      by (simp_all add: k_def [symmetric] j)
    then have "2 * 2 ^ j \<le> n" "n < 2 * 2 ^ k"
      by presburger+
    then show ?thesis
      by (simp add: bl j)
  qed
qed

lemma int_power_bounds_real:
  assumes "(2::int) ^ j \<le> n" and "n < 2 ^ k"
  shows "(2::real) ^ j \<le> real_of_int n" and "real_of_int n + 1 \<le> 2 ^ k"
proof -
  from assms(1) have "real_of_int (2 ^ j) \<le> real_of_int n"
    by (simp only: of_int_le_iff)
  then show "(2::real) ^ j \<le> real_of_int n"
    by simp
  from assms(2) have "n + 1 \<le> 2 ^ k"
    by simp
  then have "real_of_int (n + 1) \<le> real_of_int (2 ^ k)"
    by (simp only: of_int_le_iff)
  then show "real_of_int n + 1 \<le> 2 ^ k"
    by simp
qed

lemma exponent_of_bounds:
  assumes "x \<noteq> 0"
  shows "pow2 (exponent_of x) \<le> \<bar>x\<bar> \<and> \<bar>x\<bar> < pow2 (exponent_of x + 1)"
proof (cases "1 \<le> \<bar>x\<bar>")
  case True
  define n where "n = \<lfloor>\<bar>x\<bar>\<rfloor>"
  have npos: "0 < n" using True by (simp add: n_def)
  define k where "k = bit_length n"
  have kpos: "0 < k" unfolding k_def using npos by (rule bit_length_pos)
  then obtain j where j: "k = Suc j" by (cases k) auto
  from bit_length_bounds [OF npos] have b: "2 ^ j \<le> n" "n < 2 ^ k"
    by (simp_all add: k_def [symmetric] j)
  have e: "exponent_of x = int j"
    using True by (simp add: exponent_of_def n_def [symmetric] k_def [symmetric] j)
  have "real_of_int n \<le> \<bar>x\<bar>" "\<bar>x\<bar> < real_of_int n + 1"
    by (simp_all add: n_def)
  moreover from b have "(2::real) ^ j \<le> real_of_int n" "real_of_int n + 1 \<le> 2 ^ k"
    by (rule int_power_bounds_real)+
  ultimately have "(2::real) ^ j \<le> \<bar>x\<bar>" "\<bar>x\<bar> < 2 ^ k"
    by linarith+
  then show ?thesis
    by (simp add: e pow2_def nat_add_distrib j)
next
  case False
  define y where "y = 1 / \<bar>x\<bar>"
  have y1: "1 < y" using False assms by (simp add: y_def)
  define m where "m = \<lceil>y\<rceil> - 1"
  have mpos: "0 < m" using y1 by (simp add: m_def)
  have my: "real_of_int m < y" "y \<le> real_of_int m + 1"
    unfolding m_def by linarith+
  define k where "k = bit_length m"
  have kpos: "0 < k" unfolding k_def using mpos by (rule bit_length_pos)
  then obtain j where j: "k = Suc j" by (cases k) auto
  from bit_length_bounds [OF mpos] have b: "2 ^ j \<le> m" "m < 2 ^ k"
    by (simp_all add: k_def [symmetric] j)
  have e: "exponent_of x = - int k"
    using False by (simp add: exponent_of_def y_def [symmetric] m_def [symmetric] k_def)
  from b have "(2::real) ^ j \<le> real_of_int m" "real_of_int m + 1 \<le> 2 ^ k"
    by (rule int_power_bounds_real)+
  with my have yb: "(2::real) ^ j < y" "y \<le> 2 ^ k"
    by linarith+
  have xy: "\<bar>x\<bar> = 1 / y" using assms by (simp add: y_def)
  have ypos: "0 < y" using y1 by simp
  from yb ypos have "1 / 2 ^ k \<le> \<bar>x\<bar>" "\<bar>x\<bar> < 1 / 2 ^ j"
    unfolding xy by (simp_all add: frac_le frac_less2)
  then show ?thesis
    by (auto simp: e pow2_def j nat_add_distrib)
qed

section \<open>The worked scenario\<close>

text \<open>
  Claim C1, as amended. For the customer with 20 transactions, average 100, maximum 200,
  minimum 10 and total 2000, the amount 600 and the threshold 0.5, the scorer returns
  the ratios 6.0 and 3.0 and the decision "fraud". The raw score is 0.3 + 0.4, which
  is the float 0.7; the cap leaves it; the count above 10 multiplies it by 0.8, and the
  returned score is the binary64 product of 0.7 and 0.8. That number is
  5044031582654955 / 2^53, printed 0.5599999999999999: the float next below the float
  0.56, and less than 2^(-52) away from the real 0.56.
\<close>

theorem scenario_B_binary64:
  "score64 scenario_B64 (Finite 600) (Finite 0.5) =
     Inr \<lparr>predicted_fraud64 = True,
          fraud_score64 = Finite (5044031582654955 / 2 ^ 53),
          threshold64 = Finite 0.5,
          customer_stats64 = scenario_B64,
          fraud_indicators64 =
            [''Amount is 6.0x higher than customer's average'',
             ''Amount is 3.0x higher than customer's maximum''],
          amount_to_avg_ratio64 = Some (Finite 6.0),
          amount_to_max_ratio64 = Some (Finite 3.0)\<rparr>
   \<and> basic_fraud_score64 scenario_B64 (Finite 600) (Finite 6.0) (Finite 3.0) = float_literal 0.7
   \<and> float_min (float_literal 0.7) (float_literal 1.0) = float_literal 0.7
   \<and> float_mul (float_literal 0.7) (float_literal 0.8) = Finite (5044031582654955 / 2 ^ 53)
   \<and> float_literal 0.56 = Finite (5044031582654956 / 2 ^ 53)
   \<and> (0.56 :: real) - 5044031582654955 / 2 ^ 53 < 1 / 2 ^ 52"
  by code_simp

text \<open>
  The score returned in that scenario is not 0.56, neither the float that the literal
  0.56 denotes nor the real number.
\<close>

theorem scenario_B_score_is_not_0_56:
  "map_sum id fraud_score64 (score64 scenario_B64 (Finite 600) (Finite 0.5))
     \<noteq> Inr (float_literal 0.56)
   \<and> map_sum id fraud_score64 (score64 scenario_B64 (Finite 600) (Finite 0.5))
     \<noteq> Inr (Finite 0.56)"
  by code_simp

section \<open>Score arithmetic\<close>



text \<open>
  Claim C3. Whatever the statistics, the amount and the threshold, the scorer returns,
  and the returned score lies in the closed interval from 0 to 1, after the cap and the
  possible multiplier. (No assumption on the sign of the amount is needed.)
\<close>

theorem fraud_score_in_unit_interval:
  "\<exists>r. score cs a t = Inr r \<and> 0 \<le> fraud_score r \<and> fraud_score r \<le> 1"
proof -
  obtain r where r: "score cs a t = Inr r" "fraud_score r = final_score cs a"
    using score_returns [of cs a t] by fastforce
  have "0 \<le> final_score cs a \<and> final_score cs a \<le> 1"
    unfolding final_score_def by (rule adjust_score_bounds) (rule basic_fraud_score_nonneg)
  with r show ?thesis by auto
qed

text \<open>
  Claim C4. For fixed statistics and threshold the score is monotone in the amount: if
  a1 is at most a2, the score returned for a1 is at most the score returned for a2.
  (This holds for all amounts, in particular for the non-negative ones.)
\<close>

theorem fraud_score_monotone_in_amount:
  assumes "a1 \<le> a2"
  shows "\<exists>r1 r2. score cs a1 t = Inr r1 \<and> score cs a2 t = Inr r2
           \<and> fraud_score r1 \<le> fraud_score r2"
proof -
  obtain r1 where r1: "score cs a1 t = Inr r1" "fraud_score r1 = final_score cs a1"
    using score_returns [of cs a1 t] by fastforce
  obtain r2 where r2: "score cs a2 t = Inr r2" "fraud_score r2 = final_score cs a2"
    using score_returns [of cs a2 t] by fastforce
  from assms have "final_score cs a1 \<le> final_score cs a2"
    by (rule final_score_mono)
  with r1 r2 show ?thesis by auto
qed

theorem fraud_score_monotone_in_amount_witness:
  "(500::real) \<le> 600
   \<and> (\<exists>r1 r2. score scenario_B 500 0.5 = Inr r1 \<and> score scenario_B 600 0.5 = Inr r2
         \<and> fraud_score r1 \<le> fraud_score r2)
   \<and> final_score scenario_B 500 = 0.48 \<and> final_score scenario_B 600 = 0.56"
proof -
  have h: "(500::real) \<le> 600" by simp
  have v: "final_score scenario_B 500 = 0.48" "final_score scenario_B 600 = 0.56"
    by (simp_all add: final_score_def scenario_B_def ratio_or_zero_def basic_fraud_score_def
        adjust_score_def Let_def)
  show ?thesis
    using fraud_score_monotone_in_amount [OF h, of scenario_B "0.5"] h v by simp
qed

text \<open>
  Claim C5. The returned decision is the strict comparison of the returned score with the
  threshold; in particular a score equal to the threshold gives the decision "not fraud".
\<close>

theorem predicted_fraud_strict:
  "\<exists>r. score cs a t = Inr r \<and> threshold r = t
        \<and> predicted_fraud r = (fraud_score r > t)
        \<and> (fraud_score r = t \<longrightarrow> \<not> predicted_fraud r)"
  using score_returns [of cs a t] by fastforce

theorem predicted_fraud_strict_witness:
  "\<exists>r. score zero_record 0 0.5 = Inr r \<and> fraud_score r = 0.5 \<and> threshold r = 0.5
        \<and> \<not> predicted_fraud r"
  using predicted_fraud_strict [of zero_record 0 "0.5"]
  by (auto simp: score_def zero_record_def avg_ratio_step_def max_ratio_step_def
      basic_fraud_score_def adjust_score_def Let_def)

section \<open>Statistics lookup\<close>

text \<open>
  Claim C6. The lookup never fails. Without a table, when the selection on the stored
  object raises, and when no row of the table carries the customer identifier, the zero
  record is used; when several rows carry it, the first of them in table order is used.
  The whole analysis returns a result for every identifier, and for a customer without
  history that result carries the zero record.
\<close>

theorem lookup_never_fails:
  "lookup None cid = zero_record
   \<and> (select_rows src cid = Inl e \<longrightarrow> lookup (Some src) cid = zero_record)
   \<and> ((\<forall>row \<in> set rows. customer_id row \<noteq> cid) \<longrightarrow>
        lookup (Some (DataFrame rows)) cid = zero_record)
   \<and> ((\<forall>row \<in> set before. customer_id row \<noteq> cid) \<and> customer_id first = cid \<longrightarrow>
        lookup (Some (DataFrame (before @ first # rest))) cid = stats_of_row first)
   \<and> (\<exists>r. analyze_transaction cid a md = Inr r)
   \<and> (customer_history (customer_stats_overall md) cid = None
        \<or> customer_history (customer_stats_overall md) cid = Some [] \<longrightarrow>
        (\<exists>r. analyze_transaction cid a md = Inr r \<and> customer_stats r = zero_record))"
proof (intro conjI impI)
  show "lookup None cid = zero_record"
    by (simp add: lookup_def customer_history_def)
  show "lookup (Some src) cid = zero_record" if "select_rows src cid = Inl e"
    using that by (simp add: lookup_def customer_history_def)
  show "lookup (Some (DataFrame rows)) cid = zero_record"
    if "\<forall>row \<in> set rows. customer_id row \<noteq> cid"
  proof -
    from that have "filter (\<lambda>r. customer_id r = cid) rows = []"
      by (simp add: filter_empty_conv)
    then show ?thesis
      by (simp add: lookup_def customer_history_def)
  qed
  show "lookup (Some (DataFrame (before @ first # rest))) cid = stats_of_row first"
    if "(\<forall>row \<in> set before. customer_id row \<noteq> cid) \<and> customer_id first = cid"
  proof -
    from that have "filter (\<lambda>r. customer_id r = cid) (before @ first # rest)
        = first # filter (\<lambda>r. customer_id r = cid) rest"
      by (induction before) simp_all
    then show ?thesis
      by (simp add: lookup_def customer_history_def stats_of_row_def)
  qed
  show "\<exists>r. analyze_transaction cid a md = Inr r"
    using score_returns [of "lookup (customer_stats_overall md) cid" a
      "case model_threshold md of None \<Rightarrow> 0.5 | Some t \<Rightarrow> t"]
    by (auto simp: analyze_transaction_def Let_def)
  show "\<exists>r. analyze_transaction cid a md = Inr r \<and> customer_stats r = zero_record"
    if "customer_history (customer_stats_overall md) cid = None
        \<or> customer_history (customer_stats_overall md) cid = Some []"
  proof -
    from that have "lookup (customer_stats_overall md) cid = zero_record"
      by (auto simp: lookup_def)
    then show ?thesis
      using score_returns [of zero_record a
        "case model_threshold md of None \<Rightarrow> 0.5 | Some t \<Rightarrow> t"]
      by (auto simp: analyze_transaction_def Let_def)
  qed
qed

theorem lookup_never_fails_witness:
  "select_rows Unselectable 7 = Inl SelectionError
   \<and> lookup (Some Unselectable) 7 = zero_record
   \<and> customer_id row_a \<noteq> 5 \<and> customer_id row_b \<noteq> 5 \<and> customer_id row_c \<noteq> 5
   \<and> lookup (Some (DataFrame [row_a, row_b, row_c])) 5 = zero_record
   \<and> customer_id row_c \<noteq> 7 \<and> customer_id row_a = 7 \<and> customer_id row_b = 7
   \<and> lookup (Some (DataFrame [row_c, row_a, row_b])) 7 = stats_of_row row_a
   \<and> transaction_count (stats_of_row row_a) = 3
   \<and> transaction_count (stats_of_row row_b) = 9
   \<and> customer_history
        (customer_stats_overall \<lparr>model_threshold = None, customer_stats_overall = None\<rparr>) 5
      = None
   \<and> (\<exists>r. analyze_transaction 5 1500
              \<lparr>model_threshold = None, customer_stats_overall = None\<rparr> = Inr r
          \<and> customer_stats r = zero_record)"
proof -
  have h1: "select_rows Unselectable 7 = Inl SelectionError"
    by simp
  have ids: "customer_id row_a = 7" "customer_id row_b = 7" "customer_id row_c = 8"
    by (simp_all add: row_a_def row_b_def row_c_def)
  have h2: "\<forall>row \<in> set [row_a, row_b, row_c]. customer_id row \<noteq> 5"
    by (simp add: ids)
  have h3: "(\<forall>row \<in> set [row_c]. customer_id row \<noteq> 7) \<and> customer_id row_a = 7"
    by (simp add: ids)
  have h4: "customer_history
        (customer_stats_overall \<lparr>model_threshold = None, customer_stats_overall = None\<rparr>) 5
      = None"
    by (simp add: customer_history_def)
  have h5: "transaction_count (stats_of_row row_a) = 3"
    "transaction_count (stats_of_row row_b) = 9"
    by (simp_all add: stats_of_row_def row_a_def row_b_def)
  have app: "[row_c] @ row_a # [row_b] = [row_c, row_a, row_b]"
    by simp
  show ?thesis
    using lookup_never_fails [where src = Unselectable and cid = 7 and e = SelectionError]
      lookup_never_fails [where rows = "[row_a, row_b, row_c]" and cid = 5]
      lookup_never_fails [where before = "[row_c]" and first = row_a and rest = "[row_b]"
        and cid = 7]
      lookup_never_fails [where cid = 5 and a = 1500
        and md = "\<lparr>model_threshold = None, customer_stats_overall = None\<rparr>"]
      h1 h2 h3 h4 h5
    unfolding app ids by simp
qed

section \<open>The surfaced ratios\<close>



section \<open>New customers\<close>









section \<open>Independence of the unused statistics\<close>

lemma score_depends_on_three_fields:
  assumes "transaction_count s1 = transaction_count s2" "avg_amount s1 = avg_amount s2"
    "max_amount s1 = max_amount s2"
  shows "map_sum id (\<lambda>r. r\<lparr>customer_stats := s2\<rparr>) (score s1 a t) = score s2 a t"
  using assms
  by (simp add: score_def avg_ratio_step_def max_ratio_step_def truediv_def
      basic_fraud_score_def adjust_score_def Let_def)

text \<open>
  Claim C9. Two statistics records that agree on the transaction count, the average and
  the maximum, whatever their minimum and total, give for every amount and threshold
  the same score, decision, indicator list, ratio to the average and ratio to the
  maximum.
\<close>

theorem unused_statistics_do_not_interfere:
  assumes "transaction_count s1 = transaction_count s2" "avg_amount s1 = avg_amount s2"
    "max_amount s1 = max_amount s2"
  shows "\<exists>r1 r2. score s1 a t = Inr r1 \<and> score s2 a t = Inr r2
     \<and> fraud_score r1 = fraud_score r2
     \<and> predicted_fraud r1 = predicted_fraud r2
     \<and> fraud_indicators r1 = fraud_indicators r2
     \<and> amount_to_avg_ratio r1 = amount_to_avg_ratio r2
     \<and> amount_to_max_ratio r1 = amount_to_max_ratio r2"
proof -
  obtain r1 where r1: "score s1 a t = Inr r1"
    using score_returns [of s1 a t] by blast
  with score_depends_on_three_fields [OF assms, of a t]
  have "score s2 a t = Inr (r1\<lparr>customer_stats := s2\<rparr>)"
    by simp
  with r1 show ?thesis by simp
qed

theorem unused_statistics_do_not_interfere_witness:
  "transaction_count scenario_B
     = transaction_count (scenario_B\<lparr>min_amount := 0, total_amount := 99999\<rparr>)
   \<and> avg_amount scenario_B = avg_amount (scenario_B\<lparr>min_amount := 0, total_amount := 99999\<rparr>)
   \<and> max_amount scenario_B = max_amount (scenario_B\<lparr>min_amount := 0, total_amount := 99999\<rparr>)
   \<and> scenario_B \<noteq> scenario_B\<lparr>min_amount := 0, total_amount := 99999\<rparr>
   \<and> (\<exists>r1 r2. score scenario_B 600 0.5 = Inr r1
         \<and> score (scenario_B\<lparr>min_amount := 0, total_amount := 99999\<rparr>) 600 0.5 = Inr r2
         \<and> fraud_score r1 = fraud_score r2
         \<and> predicted_fraud r1 = predicted_fraud r2
         \<and> fraud_indicators r1 = fraud_indicators r2
         \<and> amount_to_avg_ratio r1 = amount_to_avg_ratio r2
         \<and> amount_to_max_ratio r1 = amount_to_max_ratio r2)"
proof -
  let ?s2 = "scenario_B\<lparr>min_amount := 0, total_amount := 99999\<rparr>"
  have h1: "transaction_count scenario_B = transaction_count ?s2"
    and h2: "avg_amount scenario_B = avg_amount ?s2"
    and h3: "max_amount scenario_B = max_amount ?s2"
    by simp_all
  have d: "scenario_B \<noteq> ?s2"
    by (simp add: scenario_B_def)
  show ?thesis
    using unused_statistics_do_not_interfere [OF h1 h2 h3, of 600 "0.5"] h1 h2 h3 d
    by blast
qed

section \<open>Totality\<close>

text \<open>
  Claim C10. The scorer is total: for every amount, negative ones included, and every
  statistics record it returns an assessment. Each of the two divisions is reached only
  with a strictly positive divisor, so neither ratio step raises, although division by
  zero does raise; the whole analysis returns as well.
\<close>

theorem score_total:
  "(\<exists>r. score cs a t = Inr r)
   \<and> (\<exists>p. avg_ratio_step cs a inds = Inr p)
   \<and> (\<exists>p. max_ratio_step cs a inds = Inr p)
   \<and> (\<exists>r. analyze_transaction cid a md = Inr r)
   \<and> truediv a 0 = Inl ZeroDivisionError"
  using score_returns [of cs a t] avg_ratio_step_returns [of cs a inds]
    max_ratio_step_returns [of cs a inds]
    score_returns [of "lookup (customer_stats_overall md) cid" a
      "case model_threshold md of None \<Rightarrow> 0.5 | Some t \<Rightarrow> t"]
  by (auto simp: analyze_transaction_def truediv_def Let_def)

end
